theory Spec2Isabelle
  imports Complex_Main
begin

section \<open>Numbers\<close>

text \<open>
  The program is \<^verbatim>\<open>src/index.js\<close>, a cubic Bezier easing factory. A JavaScript number
  is idealised as a \<^typ>\<open>real\<close>: \<open>+\<close>, \<open>-\<close>, \<open>*\<close> and the comparisons are the exact
  ones, and the rounding of double precision (and of the single-precision sample table)
  is not modelled. A JavaScript value that is not a finite number is \<open>None\<close>:
  \<^verbatim>\<open>undefined\<close> (an array slot that was never assigned, a read outside the array), and
  the \<^verbatim>\<open>NaN\<close> or infinity that a division by zero produces. \<open>js_div\<close> is the
  JavaScript \<^verbatim>\<open>/\<close> with that case written out. JavaScript would go on computing
  with such a value (and can come back to a finite result); the model stops there and
  returns \<open>None\<close>, so a \<open>None\<close> of the solver says nothing about the program. For a
  closure that the factory has built for a curve other than the identity line, and a
  real input, the solver never returns \<open>None\<close>, and no statement below rests on one.
\<close>

definition js_div :: "real \<Rightarrow> real \<Rightarrow> real option" where
  "js_div a b = (if b = 0 then None else Some (a / b))"

section \<open>Constants\<close>

definition NEWTON_ITERATIONS :: nat where
  "NEWTON_ITERATIONS = 4"

definition NEWTON_MIN_SLOPE :: real where
  "NEWTON_MIN_SLOPE = 0.001"

definition SUBDIVISION_PRECISION :: real where
  "SUBDIVISION_PRECISION = 0.0000001"

definition SUBDIVISION_MAX_ITERATIONS :: nat where
  "SUBDIVISION_MAX_ITERATIONS = 10"

definition kSplineTableSize :: nat where
  "kSplineTableSize = 11"

definition kSampleStepSize :: real where
  "kSampleStepSize = 1 / (real kSplineTableSize - 1)"

section \<open>Curve evaluator\<close>

definition A :: "real \<Rightarrow> real \<Rightarrow> real" where
  "A aA1 aA2 = 1 - 3 * aA2 + 3 * aA1"

definition B :: "real \<Rightarrow> real \<Rightarrow> real" where
  "B aA1 aA2 = 3 * aA2 - 6 * aA1"

definition C :: "real \<Rightarrow> real" where
  "C aA1 = 3 * aA1"

definition calcBezier :: "real \<Rightarrow> real \<Rightarrow> real \<Rightarrow> real" where
  "calcBezier aT aA1 aA2 = ((A aA1 aA2 * aT + B aA1 aA2) * aT + C aA1) * aT"

definition getSlope :: "real \<Rightarrow> real \<Rightarrow> real \<Rightarrow> real" where
  "getSlope aT aA1 aA2 = 3 * A aA1 aA2 * aT * aT + 2 * B aA1 aA2 * aT + C aA1"

section \<open>Bisection\<close>

text \<open>
  The \<^verbatim>\<open>do ... while\<close> loop of \<^verbatim>\<open>binarySubdivide\<close>, from the value \<open>i\<close> of its counter.
  The body runs first; \<^verbatim>\<open>++i\<close> is evaluated only when the precision test has not
  stopped the loop. The result is the state at the exit: the last midpoint
  \<^verbatim>\<open>currentT\<close> and the counter.
\<close>

function binarySubdivide_loop ::
  "real \<Rightarrow> real \<Rightarrow> real \<Rightarrow> real \<Rightarrow> real \<Rightarrow> nat \<Rightarrow> real \<times> nat" where
  "binarySubdivide_loop aX aA aB mX1 mX2 i =
     (let currentT = aA + (aB - aA) / 2;
          currentX = calcBezier currentT mX1 mX2 - aX;
          aB' = (if currentX > 0 then currentT else aB);
          aA' = (if currentX > 0 then aA else currentT)
      in if \<bar>currentX\<bar> > SUBDIVISION_PRECISION
         then (if Suc i < SUBDIVISION_MAX_ITERATIONS
               then binarySubdivide_loop aX aA' aB' mX1 mX2 (Suc i)
               else (currentT, Suc i))
         else (currentT, i))"
  by pat_completeness auto
termination
  by (relation "measure (\<lambda>(aX, aA, aB, mX1, mX2, i). SUBDIVISION_MAX_ITERATIONS - i)") auto

declare binarySubdivide_loop.simps [simp del]

definition binarySubdivide :: "real \<Rightarrow> real \<Rightarrow> real \<Rightarrow> real \<Rightarrow> real \<Rightarrow> real" where
  "binarySubdivide aX aA aB mX1 mX2 = fst (binarySubdivide_loop aX aA aB mX1 mX2 0)"

section \<open>Newton-Raphson\<close>

text \<open>
  The \<^verbatim>\<open>for\<close> loop of \<^verbatim>\<open>newtonRaphsonIterate\<close>, from the value \<open>i\<close> of its counter. The
  result is the state at the exit (the guess and the counter), or \<open>None\<close> where the
  division would be one by zero.
\<close>

function newtonRaphsonIterate_loop ::
  "real \<Rightarrow> real \<Rightarrow> real \<Rightarrow> real \<Rightarrow> nat \<Rightarrow> (real \<times> nat) option" where
  "newtonRaphsonIterate_loop aX aGuessT mX1 mX2 i =
     (if i < NEWTON_ITERATIONS
      then (let currentSlope = getSlope aGuessT mX1 mX2
            in if currentSlope = 0 then Some (aGuessT, i)
               else (let currentX = calcBezier aGuessT mX1 mX2 - aX
                     in case js_div currentX currentSlope of
                          None \<Rightarrow> None
                        | Some q \<Rightarrow> newtonRaphsonIterate_loop aX (aGuessT - q) mX1 mX2 (Suc i)))
      else Some (aGuessT, i))"
  by pat_completeness auto
termination
  by (relation "measure (\<lambda>(aX, aGuessT, mX1, mX2, i). NEWTON_ITERATIONS - i)") auto

declare newtonRaphsonIterate_loop.simps [simp del]

definition newtonRaphsonIterate :: "real \<Rightarrow> real \<Rightarrow> real \<Rightarrow> real \<Rightarrow> real option" where
  "newtonRaphsonIterate aX aGuessT mX1 mX2 =
     map_option fst (newtonRaphsonIterate_loop aX aGuessT mX1 mX2 0)"

section \<open>The factory and its closure\<close>

datatype error = Error string

text \<open>
  What the returned function closes over: the four control points and the sample
  table. A slot of the table is \<open>None\<close> while it holds \<^verbatim>\<open>undefined\<close>.
\<close>

record easing =
  mX1 :: real
  mY1 :: real
  mX2 :: real
  mY2 :: real
  sampleValues :: "real option list"

text \<open>
  \<^verbatim>\<open>new Float32Array(n)\<close> is filled with zeros, \<^verbatim>\<open>new Array(n)\<close> with empty slots;
  which one is taken depends on the environment (\<^verbatim>\<open>float32ArraySupported\<close>), a
  parameter here.
\<close>

definition newSampleValues :: "bool \<Rightarrow> nat \<Rightarrow> real option list" where
  "newSampleValues float32ArraySupported n =
     replicate n (if float32ArraySupported then Some 0 else None)"

text \<open>A read \<^verbatim>\<open>sampleValues[k]\<close>: \<^verbatim>\<open>undefined\<close> outside the array.\<close>

definition readSample :: "real option list \<Rightarrow> int \<Rightarrow> real option" where
  "readSample tbl k = (if 0 \<le> k \<and> k < int (length tbl) then tbl ! nat k else None)"

text \<open>The loop that fills the table, from index \<open>i\<close>.\<close>

function fillSamples :: "real \<Rightarrow> real \<Rightarrow> real option list \<Rightarrow> nat \<Rightarrow> real option list" where
  "fillSamples x1 x2 tbl i =
     (if i < kSplineTableSize
      then fillSamples x1 x2 (tbl[i := Some (calcBezier (real i * kSampleStepSize) x1 x2)]) (Suc i)
      else tbl)"
  by pat_completeness auto
termination
  by (relation "measure (\<lambda>(x1, x2, tbl, i). kSplineTableSize - i)") auto

declare fillSamples.simps [simp del]

definition bezier :: "bool \<Rightarrow> real \<Rightarrow> real \<Rightarrow> real \<Rightarrow> real \<Rightarrow> error + easing" where
  "bezier float32ArraySupported x1 y1 x2 y2 =
     (if \<not> (0 \<le> x1 \<and> x1 \<le> 1 \<and> 0 \<le> x2 \<and> x2 \<le> 1)
      then Inl (Error ''bezier x values must be in [0, 1] range'')
      else (let sampleValues0 = newSampleValues float32ArraySupported kSplineTableSize;
                sampleValues1 = (if x1 \<noteq> y1 \<or> x2 \<noteq> y2
                                 then fillSamples x1 x2 sampleValues0 0
                                 else sampleValues0)
            in Inr \<lparr>mX1 = x1, mY1 = y1, mX2 = x2, mY2 = y2, sampleValues = sampleValues1\<rparr>))"

section \<open>The parameter solver\<close>

text \<open>
  The interval search of \<^verbatim>\<open>getTForX\<close>: the \<^verbatim>\<open>for\<close> loop from the state
  \<open>(intervalStart, currentSample)\<close>. A comparison with \<^verbatim>\<open>undefined\<close> is false.
\<close>

function searchLoop :: "real option list \<Rightarrow> real \<Rightarrow> real \<Rightarrow> int \<Rightarrow> real \<times> int" where
  "searchLoop tbl aX intervalStart currentSample =
     (if currentSample \<noteq> int kSplineTableSize - 1 \<and>
         (case readSample tbl currentSample of Some s \<Rightarrow> s \<le> aX | None \<Rightarrow> False)
      then searchLoop tbl aX (intervalStart + kSampleStepSize) (currentSample + 1)
      else (intervalStart, currentSample))"
  by pat_completeness auto
termination
  by (relation "measure (\<lambda>(tbl, aX, intervalStart, currentSample).
        nat (int (length tbl) - currentSample))")
     (auto simp: readSample_def split: if_splits option.splits)

declare searchLoop.simps [simp del]

text \<open>The loop from \<open>(0.0, 1)\<close>, followed by \<^verbatim>\<open>--currentSample\<close>.\<close>

definition intervalSearch :: "real option list \<Rightarrow> real \<Rightarrow> real \<times> int" where
  "intervalSearch tbl aX =
     (let (intervalStart, currentSample) = searchLoop tbl aX 0 1
      in (intervalStart, currentSample - 1))"

text \<open>
  The first half of \<^verbatim>\<open>getTForX\<close>: the interval search and the linear interpolation.
  The result is \<open>(intervalStart, guessForT)\<close>.
\<close>

definition initialGuess :: "easing \<Rightarrow> real \<Rightarrow> (real \<times> real) option" where
  "initialGuess e aX =
     (let (intervalStart, currentSample) = intervalSearch (sampleValues e) aX
      in case readSample (sampleValues e) currentSample of
           None \<Rightarrow> None
         | Some s0 \<Rightarrow>
            (case readSample (sampleValues e) (currentSample + 1) of
               None \<Rightarrow> None
             | Some s1 \<Rightarrow>
                (case js_div (aX - s0) (s1 - s0) of
                   None \<Rightarrow> None
                 | Some dist' \<Rightarrow> Some (intervalStart, intervalStart + dist' * kSampleStepSize))))"

text \<open>The second half: the refinement, chosen by the slope at the guess.\<close>

definition getTForX :: "easing \<Rightarrow> real \<Rightarrow> real option" where
  "getTForX e aX =
     (case initialGuess e aX of
        None \<Rightarrow> None
      | Some (intervalStart, guessForT) \<Rightarrow>
         (let initialSlope = getSlope guessForT (mX1 e) (mX2 e)
          in if initialSlope \<ge> NEWTON_MIN_SLOPE
             then newtonRaphsonIterate aX guessForT (mX1 e) (mX2 e)
             else if initialSlope = 0
             then Some guessForT
             else Some (binarySubdivide aX intervalStart
                          (intervalStart + kSampleStepSize) (mX1 e) (mX2 e))))"

section \<open>The easing function\<close>

definition BezierEasing :: "easing \<Rightarrow> real \<Rightarrow> real option" where
  "BezierEasing e x =
     (if mX1 e = mY1 e \<and> mX2 e = mY2 e then Some x
      else if x = 0 then Some 0
      else if x = 1 then Some 1
      else map_option (\<lambda>t. calcBezier t (mY1 e) (mY2 e)) (getTForX e x))"

section \<open>Auxiliary definitions\<close>

text \<open>The table of a curve that is not the identity line.\<close>

definition sampleTable :: "real \<Rightarrow> real \<Rightarrow> real option list" where
  "sampleTable x1 x2 = map (\<lambda>i. Some (calcBezier (real i / 10) x1 x2)) [0..<11]"

text \<open>
  The Newton-Raphson update \<open>t \<leftarrow> t - (bezier(t) - x) / slope(t)\<close>, one halving of a
  bisection interval and its midpoint, as the specification words them; the loops of
  the program are compared with their iterates.
\<close>

definition newtonStep :: "real \<Rightarrow> real \<Rightarrow> real \<Rightarrow> real \<Rightarrow> real" where
  "newtonStep aX x1 x2 t = t - (calcBezier t x1 x2 - aX) / getSlope t x1 x2"

definition midpoint :: "real \<times> real \<Rightarrow> real" where
  "midpoint ab = fst ab + (snd ab - fst ab) / 2"

definition bisectStep :: "real \<Rightarrow> real \<Rightarrow> real \<Rightarrow> real \<times> real \<Rightarrow> real \<times> real" where
  "bisectStep aX x1 x2 ab =
     (if calcBezier (midpoint ab) x1 x2 - aX > 0 then (fst ab, midpoint ab)
      else (midpoint ab, snd ab))"


section \<open>Facts about the table and the loops\<close>

lemma kSampleStepSize_eq: "kSampleStepSize = 1 / 10"
  by (simp add: kSampleStepSize_def kSplineTableSize_def)

lemma fillSamples_length: "length (fillSamples x1 x2 tbl i) = length tbl"
  by (induction x1 x2 tbl i rule: fillSamples.induct) (subst fillSamples.simps, simp)

lemma fillSamples_nth:
  "k < length tbl \<Longrightarrow>
   fillSamples x1 x2 tbl i ! k =
     (if i \<le> k \<and> k < kSplineTableSize then Some (calcBezier (real k * kSampleStepSize) x1 x2)
      else tbl ! k)"
proof (induction x1 x2 tbl i rule: fillSamples.induct)
  case (1 x1 x2 tbl i)
  show ?case
  proof (cases "i < kSplineTableSize")
    case True
    then show ?thesis
      using 1 by (subst fillSamples.simps) (cases "k = i", auto simp: nth_list_update)
  next
    case False
    then show ?thesis by (subst fillSamples.simps) auto
  qed
qed

lemma fillSamples_new:
  "fillSamples x1 x2 (newSampleValues f32 kSplineTableSize) 0 = sampleTable x1 x2"
proof (rule nth_equalityI)
  show "length (fillSamples x1 x2 (newSampleValues f32 kSplineTableSize) 0) = length (sampleTable x1 x2)"
    by (simp add: fillSamples_length newSampleValues_def kSplineTableSize_def sampleTable_def)
next
  fix k assume "k < length (fillSamples x1 x2 (newSampleValues f32 kSplineTableSize) 0)"
  then have k: "k < 11"
    by (simp add: fillSamples_length newSampleValues_def kSplineTableSize_def)
  then have "fillSamples x1 x2 (newSampleValues f32 kSplineTableSize) 0 ! k
      = Some (calcBezier (real k * kSampleStepSize) x1 x2)"
    by (subst fillSamples_nth) (simp_all add: newSampleValues_def kSplineTableSize_def)
  also have "\<dots> = sampleTable x1 x2 ! k"
    using k by (simp add: sampleTable_def kSampleStepSize_eq del: upt_Suc)
  finally show "fillSamples x1 x2 (newSampleValues f32 kSplineTableSize) 0 ! k = sampleTable x1 x2 ! k" .
qed

lemma bezier_Inr:
  assumes "0 \<le> x1" "x1 \<le> 1" "0 \<le> x2" "x2 \<le> 1"
  shows "bezier f32 x1 y1 x2 y2 =
     Inr \<lparr>mX1 = x1, mY1 = y1, mX2 = x2, mY2 = y2,
          sampleValues = (if x1 \<noteq> y1 \<or> x2 \<noteq> y2 then sampleTable x1 x2
                          else newSampleValues f32 kSplineTableSize)\<rparr>"
  using assms by (simp add: bezier_def fillSamples_new Let_def)

lemma bezier_Inl:
  assumes "\<not> (0 \<le> x1 \<and> x1 \<le> 1 \<and> 0 \<le> x2 \<and> x2 \<le> 1)"
  shows "bezier f32 x1 y1 x2 y2 = Inl (Error ''bezier x values must be in [0, 1] range'')"
  using assms by (simp add: bezier_def)

lemma bezier_InrD:
  assumes "bezier f32 x1 y1 x2 y2 = Inr e"
  shows "0 \<le> x1 \<and> x1 \<le> 1 \<and> 0 \<le> x2 \<and> x2 \<le> 1 \<and>
     e = \<lparr>mX1 = x1, mY1 = y1, mX2 = x2, mY2 = y2,
          sampleValues = (if x1 \<noteq> y1 \<or> x2 \<noteq> y2 then sampleTable x1 x2
                          else newSampleValues f32 kSplineTableSize)\<rparr>"
proof (cases "0 \<le> x1 \<and> x1 \<le> 1 \<and> 0 \<le> x2 \<and> x2 \<le> 1")
  case True
  then show ?thesis using assms bezier_Inr[of x1 x2 f32 y1 y2] by simp
next
  case False
  then show ?thesis using assms bezier_Inl[of x1 x2 f32 y1 y2] by simp
qed

lemma searchLoop_range:
  "searchLoop tbl aX s c = (s', c') \<Longrightarrow> 1 \<le> c \<Longrightarrow> c \<le> 10 \<Longrightarrow>
   c \<le> c' \<and> c' \<le> 10 \<and> s' = s + real_of_int (c' - c) * kSampleStepSize"
proof (induction tbl aX s c rule: searchLoop.induct)
  case (1 tbl aX intervalStart currentSample)
  show ?case
  proof (cases "currentSample \<noteq> int kSplineTableSize - 1 \<and>
         (case readSample tbl currentSample of Some s \<Rightarrow> s \<le> aX | None \<Rightarrow> False)")
    case True
    then have eq: "searchLoop tbl aX (intervalStart + kSampleStepSize) (currentSample + 1) = (s', c')"
      using "1.prems"(1) by (subst (asm) searchLoop.simps) simp
    have "currentSample + 1 \<le> 10"
      using True "1.prems" by (simp add: kSplineTableSize_def)
    then have "currentSample + 1 \<le> c' \<and> c' \<le> 10 \<and>
       s' = intervalStart + kSampleStepSize + real_of_int (c' - (currentSample + 1)) * kSampleStepSize"
      using "1.IH"[OF True eq] "1.prems" by simp
    then show ?thesis by (simp add: algebra_simps)
  next
    case False
    have "(s', c') = (intervalStart, currentSample)"
      using "1.prems"(1) by (subst (asm) searchLoop.simps) (simp only: False if_False)
    then show ?thesis using "1.prems" by simp
  qed
qed

lemma intervalSearch_range:
  assumes "intervalSearch tbl aX = (s, c)"
  shows "0 \<le> c \<and> c \<le> 9 \<and> s = real_of_int c * kSampleStepSize"
proof -
  obtain s' c' where sl: "searchLoop tbl aX 0 1 = (s', c')" by (cases "searchLoop tbl aX 0 1")
  from searchLoop_range[OF sl] have "1 \<le> c' \<and> c' \<le> 10 \<and> s' = real_of_int (c' - 1) * kSampleStepSize"
    by simp
  moreover have "s = s'" "c = c' - 1" using assms sl by (simp_all add: intervalSearch_def)
  ultimately show ?thesis by simp
qed

lemma readSample_sampleTable:
  "0 \<le> c \<Longrightarrow> c \<le> 10 \<Longrightarrow>
   readSample (sampleTable x1 x2) c = Some (calcBezier (real_of_int c / 10) x1 x2)"
  by (simp add: readSample_def sampleTable_def del: upt_Suc)

lemma samples_increasing:
  assumes "0 \<le> x1" "x1 \<le> 1" "0 \<le> x2" "x2 \<le> 1" "i < 10"
  shows "calcBezier (real i / 10) x1 x2 < calcBezier (real (Suc i) / 10) x1 x2"
proof -
  from \<open>i < 10\<close> have "i \<in> {0,1,2,3,4,5,6,7,8,9}" by auto
  then show ?thesis
    using assms(1-4)
    by (elim insertE emptyE;
        simp add: calcBezier_def A_def B_def C_def algebra_simps add_divide_distrib)
qed

lemma samples_increasing_int:
  assumes "0 \<le> x1" "x1 \<le> 1" "0 \<le> x2" "x2 \<le> 1" "0 \<le> c" "c \<le> 9"
  shows "calcBezier (real_of_int c / 10) x1 x2 < calcBezier (real_of_int (c + 1) / 10) x1 x2"
proof -
  have "nat c < 10" using assms by simp
  from samples_increasing[OF assms(1-4) this] show ?thesis
    using assms(5) by (simp add: add.commute)
qed

lemma newton_loop_Some:
  "\<exists>t j. newtonRaphsonIterate_loop aX g x1 x2 i = Some (t, j)"
proof (induction aX g x1 x2 i rule: newtonRaphsonIterate_loop.induct)
  case (1 aX aGuessT mX1 mX2 i)
  show ?case
  proof (cases "i < NEWTON_ITERATIONS \<and> getSlope aGuessT mX1 mX2 \<noteq> 0")
    case True
    then have "js_div (calcBezier aGuessT mX1 mX2 - aX) (getSlope aGuessT mX1 mX2)
        = Some ((calcBezier aGuessT mX1 mX2 - aX) / getSlope aGuessT mX1 mX2)"
      by (simp add: js_div_def)
    with True "1.IH"[OF _ refl _ refl this] show ?thesis
      by (subst newtonRaphsonIterate_loop.simps) simp
  next
    case False
    then show ?thesis by (subst newtonRaphsonIterate_loop.simps) auto
  qed
qed

lemma initialGuess_sampleTable:
  assumes "0 \<le> x1" "x1 \<le> 1" "0 \<le> x2" "x2 \<le> 1"
    and "sampleValues e = sampleTable x1 x2"
    and "intervalSearch (sampleTable x1 x2) aX = (s, c)"
  shows "initialGuess e aX =
     Some (s, s + (aX - calcBezier (real_of_int c / 10) x1 x2) /
                 (calcBezier (real_of_int (c + 1) / 10) x1 x2 - calcBezier (real_of_int c / 10) x1 x2)
                 * kSampleStepSize)"
proof -
  from intervalSearch_range[OF assms(6)] have c: "0 \<le> c" "c \<le> 9" by simp_all
  let ?s0 = "calcBezier (real_of_int c / 10) x1 x2"
  let ?s1 = "calcBezier (real_of_int (c + 1) / 10) x1 x2"
  have r0: "readSample (sampleTable x1 x2) c = Some ?s0"
    using c by (simp add: readSample_sampleTable)
  have r1: "readSample (sampleTable x1 x2) (c + 1) = Some ?s1"
    using c by (simp add: readSample_sampleTable)
  have "?s0 < ?s1" using samples_increasing_int[OF assms(1-4) c] .
  then have d: "js_div (aX - ?s0) (?s1 - ?s0) = Some ((aX - ?s0) / (?s1 - ?s0))"
    by (simp add: js_div_def)
  show ?thesis
    unfolding initialGuess_def assms(5) assms(6) using r0 r1 d by simp
qed

lemma getTForX_Some:
  assumes "0 \<le> x1" "x1 \<le> 1" "0 \<le> x2" "x2 \<le> 1"
    and "mX1 e = x1" "mX2 e = x2" "sampleValues e = sampleTable x1 x2"
  shows "\<exists>t. getTForX e aX = Some t"
proof -
  obtain s c where sc: "intervalSearch (sampleTable x1 x2) aX = (s, c)"
    by (cases "intervalSearch (sampleTable x1 x2) aX")
  obtain g where g: "initialGuess e aX = Some (s, g)"
    using initialGuess_sampleTable[OF assms(1-4) assms(7) sc] by simp
  obtain t j where "newtonRaphsonIterate_loop aX g x1 x2 0 = Some (t, j)"
    using newton_loop_Some by blast
  then have n: "newtonRaphsonIterate aX g x1 x2 = Some t"
    by (simp add: newtonRaphsonIterate_def)
  show ?thesis
    unfolding getTForX_def g using n by (simp add: Let_def assms(5,6))
qed

lemma newton_loop_iterate:
  "i \<le> NEWTON_ITERATIONS \<Longrightarrow>
   \<exists>k. i + k \<le> NEWTON_ITERATIONS \<and>
       newtonRaphsonIterate_loop aX t x1 x2 i = Some ((newtonStep aX x1 x2 ^^ k) t, i + k) \<and>
       (\<forall>j<k. getSlope ((newtonStep aX x1 x2 ^^ j) t) x1 x2 \<noteq> 0) \<and>
       (i + k < NEWTON_ITERATIONS \<longrightarrow> getSlope ((newtonStep aX x1 x2 ^^ k) t) x1 x2 = 0)"
proof (induction aX t x1 x2 i rule: newtonRaphsonIterate_loop.induct)
  case (1 aX aGuessT mX1 mX2 i)
  let ?f = "newtonStep aX mX1 mX2"
  show ?case
  proof (cases "i < NEWTON_ITERATIONS")
    case False
    then have "newtonRaphsonIterate_loop aX aGuessT mX1 mX2 i = Some (aGuessT, i)"
      by (subst newtonRaphsonIterate_loop.simps) simp
    then show ?thesis using False "1.prems" by (intro exI[of _ 0]) simp
  next
    case lt: True
    show ?thesis
    proof (cases "getSlope aGuessT mX1 mX2 = 0")
      case True
      then have "newtonRaphsonIterate_loop aX aGuessT mX1 mX2 i = Some (aGuessT, i)"
        using lt by (subst newtonRaphsonIterate_loop.simps) simp
      then show ?thesis using True "1.prems" by (intro exI[of _ 0]) simp
    next
      case False
      let ?q = "(calcBezier aGuessT mX1 mX2 - aX) / getSlope aGuessT mX1 mX2"
      have d: "js_div (calcBezier aGuessT mX1 mX2 - aX) (getSlope aGuessT mX1 mX2) = Some ?q"
        using False by (simp add: js_div_def)
      have step: "aGuessT - ?q = ?f aGuessT" by (simp add: newtonStep_def)
      have unf: "newtonRaphsonIterate_loop aX aGuessT mX1 mX2 i
          = newtonRaphsonIterate_loop aX (?f aGuessT) mX1 mX2 (Suc i)"
        using lt False d by (subst newtonRaphsonIterate_loop.simps) (simp add: step)
      from lt have "Suc i \<le> NEWTON_ITERATIONS" by simp
      from "1.IH"[OF lt refl False refl d this]
      obtain k where k: "Suc i + k \<le> NEWTON_ITERATIONS"
        "newtonRaphsonIterate_loop aX (?f aGuessT) mX1 mX2 (Suc i) = Some ((?f ^^ k) (?f aGuessT), Suc i + k)"
        "\<forall>j<k. getSlope ((?f ^^ j) (?f aGuessT)) mX1 mX2 \<noteq> 0"
        "Suc i + k < NEWTON_ITERATIONS \<longrightarrow> getSlope ((?f ^^ k) (?f aGuessT)) mX1 mX2 = 0"
        unfolding step by blast
      have sh: "\<And>n. (?f ^^ n) (?f aGuessT) = (?f ^^ Suc n) aGuessT"
        by (simp add: funpow_swap1)
      have "\<forall>j<Suc k. getSlope ((?f ^^ j) aGuessT) mX1 mX2 \<noteq> 0"
      proof (intro allI impI)
        fix j assume "j < Suc k"
        show "getSlope ((?f ^^ j) aGuessT) mX1 mX2 \<noteq> 0"
        proof (cases j)
          case 0
          then show ?thesis using False by simp
        next
          case (Suc j')
          then have "j' < k" using \<open>j < Suc k\<close> by simp
          then show ?thesis using k(3) sh[of j'] Suc by metis
        qed
      qed
      then show ?thesis
        using k unf sh[of k] by (intro exI[of _ "Suc k"]) (simp del: funpow.simps)
    qed
  qed
qed

lemma bisect_loop_unfold:
  "binarySubdivide_loop aX aA aB x1 x2 i =
     (if \<bar>calcBezier (midpoint (aA, aB)) x1 x2 - aX\<bar> > SUBDIVISION_PRECISION
      then (if Suc i < SUBDIVISION_MAX_ITERATIONS
            then binarySubdivide_loop aX (fst (bisectStep aX x1 x2 (aA, aB)))
                   (snd (bisectStep aX x1 x2 (aA, aB))) x1 x2 (Suc i)
            else (midpoint (aA, aB), Suc i))
      else (midpoint (aA, aB), i))"
  by (subst binarySubdivide_loop.simps) (simp add: Let_def midpoint_def bisectStep_def)

lemma bisect_loop_iterate:
  "i < SUBDIVISION_MAX_ITERATIONS \<Longrightarrow>
   \<exists>n. i + n < SUBDIVISION_MAX_ITERATIONS \<and>
       binarySubdivide_loop aX aA aB x1 x2 i =
         (midpoint ((bisectStep aX x1 x2 ^^ n) (aA, aB)),
          if \<bar>calcBezier (midpoint ((bisectStep aX x1 x2 ^^ n) (aA, aB))) x1 x2 - aX\<bar>
               > SUBDIVISION_PRECISION
          then SUBDIVISION_MAX_ITERATIONS else i + n) \<and>
       (\<forall>j<n. \<bar>calcBezier (midpoint ((bisectStep aX x1 x2 ^^ j) (aA, aB))) x1 x2 - aX\<bar>
                > SUBDIVISION_PRECISION) \<and>
       (Suc (i + n) < SUBDIVISION_MAX_ITERATIONS \<longrightarrow>
          \<bar>calcBezier (midpoint ((bisectStep aX x1 x2 ^^ n) (aA, aB))) x1 x2 - aX\<bar>
            \<le> SUBDIVISION_PRECISION)"
proof (induction "SUBDIVISION_MAX_ITERATIONS - i" arbitrary: i aA aB)
  case 0
  then show ?case by simp
next
  case (Suc d)
  let ?f = "bisectStep aX x1 x2"
  let ?far = "\<lambda>ab. \<bar>calcBezier (midpoint ab) x1 x2 - aX\<bar> > SUBDIVISION_PRECISION"
  show ?case
  proof (cases "?far (aA, aB)")
    case False
    then have "binarySubdivide_loop aX aA aB x1 x2 i = (midpoint (aA, aB), i)"
      by (subst bisect_loop_unfold) simp
    then show ?thesis using False Suc.prems by (intro exI[of _ 0]) simp
  next
    case far: True
    show ?thesis
    proof (cases "Suc i < SUBDIVISION_MAX_ITERATIONS")
      case False
      then have "binarySubdivide_loop aX aA aB x1 x2 i = (midpoint (aA, aB), Suc i)"
        using far by (subst bisect_loop_unfold) simp
      moreover have "Suc i = SUBDIVISION_MAX_ITERATIONS" using False Suc.prems by simp
      ultimately show ?thesis using far False Suc.prems by (intro exI[of _ 0]) simp
    next
      case True
      obtain a' b' where ab': "?f (aA, aB) = (a', b')" by (cases "?f (aA, aB)")
      have unf: "binarySubdivide_loop aX aA aB x1 x2 i = binarySubdivide_loop aX a' b' x1 x2 (Suc i)"
        using far True by (subst bisect_loop_unfold) (simp add: ab')
      have "d = SUBDIVISION_MAX_ITERATIONS - Suc i" using Suc.hyps(2) by simp
      from Suc.hyps(1)[OF this True, of a' b']
      obtain n where n: "Suc i + n < SUBDIVISION_MAX_ITERATIONS"
        "binarySubdivide_loop aX a' b' x1 x2 (Suc i) =
           (midpoint ((?f ^^ n) (a', b')),
            if ?far ((?f ^^ n) (a', b')) then SUBDIVISION_MAX_ITERATIONS else Suc i + n)"
        "\<forall>j<n. ?far ((?f ^^ j) (a', b'))"
        "Suc (Suc i + n) < SUBDIVISION_MAX_ITERATIONS \<longrightarrow> \<not> ?far ((?f ^^ n) (a', b'))"
        by (auto simp: not_less)
      have sh: "\<And>m. (?f ^^ m) (a', b') = (?f ^^ Suc m) (aA, aB)"
        by (simp add: funpow_swap1 ab')
      have "\<forall>j<Suc n. ?far ((?f ^^ j) (aA, aB))"
      proof (intro allI impI)
        fix j assume "j < Suc n"
        show "?far ((?f ^^ j) (aA, aB))"
        proof (cases j)
          case 0
          then show ?thesis using far by simp
        next
          case (Suc j')
          then have "j' < n" using \<open>j < Suc n\<close> by simp
          then show ?thesis using n(3) sh[of j'] Suc by metis
        qed
      qed
      then show ?thesis
        using n unf sh[of n] by (intro exI[of _ "Suc n"]) (simp del: funpow.simps add: not_less)
    qed
  qed
qed

section \<open>Facts about the curve\<close>












section \<open>Facts about the solver\<close>









section \<open>The claims\<close>

subsection \<open>C1: the endpoints are exact\<close>

text \<open>
  C1. For every control-point tuple with \<open>x1\<close> and \<open>x2\<close> in \<open>[0,1]\<close> the factory
  returns an easing function \<open>f\<close> with \<open>f(0) = 0\<close> and \<open>f(1) = 1\<close>: both values are
  returned as such, not computed.
\<close>

theorem endpoints_exact:
  assumes "0 \<le> x1" "x1 \<le> 1" "0 \<le> x2" "x2 \<le> 1"
  shows "\<exists>e. bezier f32 x1 y1 x2 y2 = Inr e \<and> BezierEasing e 0 = Some 0 \<and> BezierEasing e 1 = Some 1"
  using bezier_Inr[OF assms, of f32 y1 y2] by (simp add: BezierEasing_def)

theorem endpoints_exact_witness:
  "\<exists>e. bezier True 0.42 0 0.58 1 = Inr e \<and> BezierEasing e 0 = Some 0 \<and> BezierEasing e 1 = Some 1"
  using endpoints_exact[of "0.42" "0.58" True 0 1] by simp

subsection \<open>C2: the identity line\<close>

text \<open>
  C2. If \<open>x1 = y1\<close> and \<open>x2 = y2\<close> (with \<open>x1\<close>, \<open>x2\<close> in \<open>[0,1]\<close>) the returned function
  is the identity on every real input, also outside \<open>[0,1]\<close>. The solver is bypassed: the
  result is the input whatever the sample table holds, so nothing that reads the table
  takes part in it.
\<close>

theorem identity_law:
  assumes "x1 = y1" "x2 = y2" "0 \<le> x1" "x1 \<le> 1" "0 \<le> x2" "x2 \<le> 1"
  shows "\<exists>e. bezier f32 x1 y1 x2 y2 = Inr e \<and>
           (\<forall>x. BezierEasing e x = Some x) \<and>
           (\<forall>tbl x. BezierEasing (e\<lparr>sampleValues := tbl\<rparr>) x = Some x)"
proof -
  let ?e = "\<lparr>mX1 = x1, mY1 = y1, mX2 = x2, mY2 = y2,
             sampleValues = newSampleValues f32 kSplineTableSize\<rparr>"
  have "bezier f32 x1 y1 x2 y2 = Inr ?e"
    using bezier_Inr[OF assms(3-6), of f32 y1 y2] assms(1,2) by simp
  moreover have "\<forall>x. BezierEasing ?e x = Some x"
    using assms(1,2) by (simp add: BezierEasing_def)
  moreover have "\<forall>tbl x. BezierEasing (?e\<lparr>sampleValues := tbl\<rparr>) x = Some x"
    using assms(1,2) by (simp add: BezierEasing_def)
  ultimately show ?thesis by blast
qed

theorem identity_law_witness:
  "\<exists>e. bezier True 0 0 1 1 = Inr e \<and> BezierEasing e 0.3 = Some 0.3 \<and>
       BezierEasing e 0.73 = Some 0.73 \<and> BezierEasing e (-2) = Some (-2) \<and>
       BezierEasing (e\<lparr>sampleValues := []\<rparr>) 0.3 = Some 0.3"
proof -
  from identity_law[of 0 0 1 1 True]
  obtain e where "bezier True 0 0 1 1 = Inr e" "\<forall>x. BezierEasing e x = Some x"
    "\<forall>tbl x. BezierEasing (e\<lparr>sampleValues := tbl\<rparr>) x = Some x"
    by auto
  then show ?thesis by auto
qed

subsection \<open>C3: the only failure\<close>

text \<open>
  C3. The factory fails if and only if \<open>x1\<close> or \<open>x2\<close> lies outside \<open>[0,1]\<close>, whatever
  \<open>y1\<close> and \<open>y2\<close> are, and then with the one invalid-argument error, which carries no
  table. Once the factory has succeeded, every call of the returned function returns a
  number.
\<close>

theorem invalid_argument_iff:
  "((\<exists>err. bezier f32 x1 y1 x2 y2 = Inl err) \<longleftrightarrow> \<not> (0 \<le> x1 \<and> x1 \<le> 1 \<and> 0 \<le> x2 \<and> x2 \<le> 1)) \<and>
   (\<forall>err. bezier f32 x1 y1 x2 y2 = Inl err \<longrightarrow>
      err = Error ''bezier x values must be in [0, 1] range'') \<and>
   (\<forall>e. bezier f32 x1 y1 x2 y2 = Inr e \<longrightarrow> (\<forall>x. \<exists>y. BezierEasing e x = Some y))"
proof (intro conjI allI impI)
  show "(\<exists>err. bezier f32 x1 y1 x2 y2 = Inl err) \<longleftrightarrow> \<not> (0 \<le> x1 \<and> x1 \<le> 1 \<and> 0 \<le> x2 \<and> x2 \<le> 1)"
    by (auto simp: bezier_def Let_def)
next
  fix err assume "bezier f32 x1 y1 x2 y2 = Inl err"
  then show "err = Error ''bezier x values must be in [0, 1] range''"
    by (auto simp: bezier_def Let_def split: if_splits)
next
  fix e x assume "bezier f32 x1 y1 x2 y2 = Inr e"
  from bezier_InrD[OF this] have v: "0 \<le> x1" "x1 \<le> 1" "0 \<le> x2" "x2 \<le> 1"
    and e: "e = \<lparr>mX1 = x1, mY1 = y1, mX2 = x2, mY2 = y2,
          sampleValues = (if x1 \<noteq> y1 \<or> x2 \<noteq> y2 then sampleTable x1 x2
                          else newSampleValues f32 kSplineTableSize)\<rparr>"
    by simp_all
  show "\<exists>y. BezierEasing e x = Some y"
  proof (cases "x1 = y1 \<and> x2 = y2")
    case True
    then show ?thesis by (simp add: BezierEasing_def e)
  next
    case False
    then have "sampleValues e = sampleTable x1 x2" by (auto simp: e)
    from getTForX_Some[OF v _ _ this, of x] obtain t where "getTForX e x = Some t"
      by (auto simp: e)
    then show ?thesis by (simp add: BezierEasing_def)
  qed
qed

theorem invalid_argument_iff_witness:
  "(\<exists>err. bezier True (-0.1) 0 0.5 1 = Inl err) \<and>
   bezier True 0.5 0 1.1 1 = Inl (Error ''bezier x values must be in [0, 1] range'') \<and>
   (\<exists>e. bezier True 0.42 (-7) 0.58 1000 = Inr e \<and> (\<exists>y. BezierEasing e 0.3 = Some y))"
proof -
  have a: "\<exists>err. bezier True (-0.1) 0 0.5 1 = Inl err"
    using invalid_argument_iff[of True "-0.1" 0 "0.5" 1] by simp
  have "\<exists>err. bezier True 0.5 0 1.1 1 = Inl err"
    using invalid_argument_iff[of True "0.5" 0 "1.1" 1] by simp
  then have b: "bezier True 0.5 0 1.1 1 = Inl (Error ''bezier x values must be in [0, 1] range'')"
    using invalid_argument_iff[of True "0.5" 0 "1.1" 1] by auto
  have "\<not> (\<exists>err. bezier True 0.42 (-7) 0.58 1000 = Inl err)"
    using invalid_argument_iff[of True "0.42" "-7" "0.58" 1000] by simp
  then obtain e where e: "bezier True 0.42 (-7) 0.58 1000 = Inr e"
    by (cases "bezier True 0.42 (-7) 0.58 1000") auto
  then have "\<exists>y. BezierEasing e 0.3 = Some y"
    using invalid_argument_iff[of True "0.42" "-7" "0.58" 1000] by blast
  with a b e show ?thesis by blast
qed

subsection \<open>C4: how close the solver comes\<close>


lemma search_1_0_c: "intervalSearch (sampleTable 1 0) 0.5003 = (0.5, 5)"
  by (simp add: intervalSearch_def searchLoop.simps readSample_sampleTable
        calcBezier_def A_def B_def C_def kSplineTableSize_def kSampleStepSize_eq)

lemma guess_1_0_c:
  "sampleValues e = sampleTable 1 0 \<Longrightarrow> initialGuess e 0.5003 = Some (0.5, 0.5075)"
  using initialGuess_sampleTable[of 1 0 e "0.5003" "0.5" 5, OF _ _ _ _ _ search_1_0_c]
  by (simp add: calcBezier_def A_def B_def C_def kSampleStepSize_eq)

lemma bisect_1_0_c:
  "binarySubdivide_loop 0.5003 0.5 (0.5 + kSampleStepSize) 1 0 0 = (5551 / 10240, 10)"
  by (simp add: binarySubdivide_loop.simps Let_def kSampleStepSize_eq
        SUBDIVISION_PRECISION_def SUBDIVISION_MAX_ITERATIONS_def calcBezier_def A_def B_def C_def)








text \<open>
  Bisection does not reach \<open>1e-6\<close> either when it uses all its 10 iterations: on the
  same curve at \<open>x = 0.5003\<close> the tenth midpoint is returned with \<open>bezier(t)\<close> about
  \<open>1.7e-6\<close> away from \<open>x\<close>.
\<close>

lemma bisection_bound_reached:
  "(case bezier True 1 0 0 1 of
      Inl err \<Rightarrow> False
    | Inr e \<Rightarrow>
        initialGuess e 0.5003 = Some (0.5, 0.5075) \<and>
        binarySubdivide_loop 0.5003 0.5 (0.5 + kSampleStepSize) 1 0 0 = (5551 / 10240, 10) \<and>
        getTForX e 0.5003 = Some (5551 / 10240) \<and>
        \<not> \<bar>calcBezier (5551 / 10240) 1 0 - 0.5003\<bar> \<le> 0.000001)"
proof -
  let ?e = "\<lparr>mX1 = 1, mY1 = 0, mX2 = 0, mY2 = 1, sampleValues = sampleTable 1 0\<rparr>"
  have b: "bezier True 1 0 0 1 = Inr ?e"
    using bezier_Inr[of 1 0 True 0 1] by simp
  have g: "initialGuess ?e 0.5003 = Some (0.5, 0.5075)"
    by (rule guess_1_0_c) simp
  have s: "\<not> getSlope 0.5075 1 0 \<ge> NEWTON_MIN_SLOPE" "getSlope 0.5075 1 0 \<noteq> 0"
    by (simp_all add: getSlope_def A_def B_def C_def NEWTON_MIN_SLOPE_def)
  have t: "getTForX ?e 0.5003 = Some (5551 / 10240)"
    using s by (simp add: getTForX_def g[simplified] binarySubdivide_def bisect_1_0_c[simplified])
  have far: "\<not> \<bar>calcBezier (5551 / 10240) 1 0 - 0.5003\<bar> \<le> 0.000001"
    by (simp add: calcBezier_def A_def B_def C_def)
  show ?thesis unfolding b sum.case using g bisect_1_0_c t far by blast
qed

subsection \<open>C6: the sample table\<close>

text \<open>
  C6. For a curve that is not the identity line the factory builds the table of exactly
  11 samples \<open>sample[i] = calcBezier (i/10) x1 x2\<close>, \<open>i = 0..10\<close>, with the constant step
  \<open>1/10\<close>. For the identity line the table stays as it was allocated, no slot assigned,
  and the returned function never reads it.
\<close>

theorem sample_table:
  assumes "bezier f32 x1 y1 x2 y2 = Inr e"
  shows "if x1 \<noteq> y1 \<or> x2 \<noteq> y2
         then sampleValues e = map (\<lambda>i. Some (calcBezier (real i / 10) x1 x2)) [0..<11] \<and>
              kSampleStepSize = 1 / 10
         else sampleValues e = newSampleValues f32 kSplineTableSize \<and>
              (\<forall>tbl x. BezierEasing (e\<lparr>sampleValues := tbl\<rparr>) x = BezierEasing e x)"
  using bezier_InrD[OF assms]
  by (auto simp: sampleTable_def kSampleStepSize_eq BezierEasing_def simp del: upt_Suc)

theorem sample_table_witness:
  "\<exists>e. bezier True 0.42 0 0.58 1 = Inr e \<and>
       length (sampleValues e) = 11 \<and>
       sampleValues e ! 5 = Some (calcBezier (5 / 10) 0.42 0.58) \<and>
       sampleValues e ! 5 = Some 0.5"
proof -
  obtain e where e: "bezier True 0.42 0 0.58 1 = Inr e"
    using bezier_Inr[of "0.42" "0.58" True 0 1] by simp
  from sample_table[OF e]
  have "sampleValues e = map (\<lambda>i. Some (calcBezier (real i / 10) 0.42 0.58)) [0..<11]"
    by simp
  then have "length (sampleValues e) = 11 \<and> sampleValues e ! 5 = Some (calcBezier (5 / 10) 0.42 0.58)"
    by (simp del: upt_Suc)
  moreover have "calcBezier (5 / 10) 0.42 0.58 = 0.5"
    by (simp add: calcBezier_def A_def B_def C_def)
  ultimately show ?thesis using e by auto
qed

subsection \<open>C7: the Newton-Raphson refinement\<close>

text \<open>
  C7. The Newton-Raphson loop makes \<open>k \<le> 4\<close> updates
  \<open>t \<leftarrow> t - (bezier(t) - x) / slope(t)\<close>, with the slope taken anew at each guess. Every
  slope it divides by is not zero, so the result is a number; and it stops before the
  fourth update only at a guess whose slope is exactly zero, which it returns.
\<close>

theorem newton_guarded:
  "\<exists>k\<le>4. newtonRaphsonIterate aX t0 x1 x2 = Some ((newtonStep aX x1 x2 ^^ k) t0) \<and>
          newtonRaphsonIterate_loop aX t0 x1 x2 0 = Some ((newtonStep aX x1 x2 ^^ k) t0, k) \<and>
          (\<forall>j<k. getSlope ((newtonStep aX x1 x2 ^^ j) t0) x1 x2 \<noteq> 0) \<and>
          (k < 4 \<longrightarrow> getSlope ((newtonStep aX x1 x2 ^^ k) t0) x1 x2 = 0)"
proof -
  from newton_loop_iterate[of 0 aX t0 x1 x2]
  obtain k where k: "k \<le> NEWTON_ITERATIONS"
    "newtonRaphsonIterate_loop aX t0 x1 x2 0 = Some ((newtonStep aX x1 x2 ^^ k) t0, k)"
    "\<forall>j<k. getSlope ((newtonStep aX x1 x2 ^^ j) t0) x1 x2 \<noteq> 0"
    "k < NEWTON_ITERATIONS \<longrightarrow> getSlope ((newtonStep aX x1 x2 ^^ k) t0) x1 x2 = 0"
    by auto
  then show ?thesis
    by (intro exI[of _ k]) (simp add: newtonRaphsonIterate_def NEWTON_ITERATIONS_def)
qed

theorem newton_guarded_witness:
  "getSlope 0.5 1 0 = 0 \<and> newtonRaphsonIterate 0.7 0.5 1 0 = Some 0.5 \<and>
   newtonRaphsonIterate_loop 0.7 0.5 1 0 0 = Some (0.5, 0)"
proof -
  have z: "getSlope 0.5 1 0 = 0"
    by (simp add: getSlope_def A_def B_def C_def)
  from newton_guarded[of "0.7" "0.5" 1 0]
  obtain k where k: "newtonRaphsonIterate 0.7 0.5 1 0 = Some ((newtonStep 0.7 1 0 ^^ k) 0.5)"
    "newtonRaphsonIterate_loop 0.7 0.5 1 0 0 = Some ((newtonStep 0.7 1 0 ^^ k) 0.5, k)"
    "\<forall>j<k. getSlope ((newtonStep 0.7 1 0 ^^ j) 0.5) 1 0 \<noteq> 0"
    by blast
  have "k = 0"
  proof (rule ccontr)
    assume "k \<noteq> 0"
    then have "getSlope ((newtonStep 0.7 1 0 ^^ 0) 0.5) 1 0 \<noteq> 0" using k(3) by blast
    then show False using z by simp
  qed
  then show ?thesis using k z by simp
qed

subsection \<open>C8: both refinement loops are bounded\<close>

text \<open>
  C8. Both loops are total functions. The Newton-Raphson loop ends with its counter at
  most 4. The bisection loop computes \<open>n + 1 \<le> 10\<close> midpoints and returns the last one;
  at none of the earlier ones was \<open>|bezier(mid) - x| \<le> 1e-7\<close>, and when it stops before
  the tenth midpoint the last one meets that precision.
\<close>

theorem loops_bounded:
  "(\<exists>t k. newtonRaphsonIterate_loop aX t0 x1 x2 0 = Some (t, k) \<and> k \<le> 4) \<and>
   (\<exists>n<10. binarySubdivide aX aA aB x1 x2 = midpoint ((bisectStep aX x1 x2 ^^ n) (aA, aB)) \<and>
       (\<forall>j<n. \<bar>calcBezier (midpoint ((bisectStep aX x1 x2 ^^ j) (aA, aB))) x1 x2 - aX\<bar>
                > 0.0000001) \<and>
       (n < 9 \<longrightarrow> \<bar>calcBezier (binarySubdivide aX aA aB x1 x2) x1 x2 - aX\<bar> \<le> 0.0000001))"
proof
  from newton_loop_iterate[of 0 aX t0 x1 x2]
  show "\<exists>t k. newtonRaphsonIterate_loop aX t0 x1 x2 0 = Some (t, k) \<and> k \<le> 4"
    by (auto simp: NEWTON_ITERATIONS_def)
next
  let ?m = "\<lambda>n. midpoint ((bisectStep aX x1 x2 ^^ n) (aA, aB))"
  from bisect_loop_iterate[of 0 aX aA aB x1 x2]
  obtain n where n: "n < SUBDIVISION_MAX_ITERATIONS"
    "fst (binarySubdivide_loop aX aA aB x1 x2 0) = ?m n"
    "\<forall>j<n. \<bar>calcBezier (?m j) x1 x2 - aX\<bar> > SUBDIVISION_PRECISION"
    "Suc n < SUBDIVISION_MAX_ITERATIONS \<longrightarrow> \<bar>calcBezier (?m n) x1 x2 - aX\<bar> \<le> SUBDIVISION_PRECISION"
    by (auto simp: SUBDIVISION_MAX_ITERATIONS_def)
  then show "\<exists>n<10. binarySubdivide aX aA aB x1 x2 = ?m n \<and>
       (\<forall>j<n. \<bar>calcBezier (?m j) x1 x2 - aX\<bar> > 0.0000001) \<and>
       (n < 9 \<longrightarrow> \<bar>calcBezier (binarySubdivide aX aA aB x1 x2) x1 x2 - aX\<bar> \<le> 0.0000001)"
    by (intro exI[of _ n])
       (simp add: binarySubdivide_def SUBDIVISION_MAX_ITERATIONS_def SUBDIVISION_PRECISION_def)
qed

theorem loops_bounded_witness:
  "binarySubdivide 0.5 0 1 0.5 0.5 = 0.5 \<and>
   (\<exists>t k. newtonRaphsonIterate_loop 0.5 0.3 0.5 0.5 0 = Some (t, k) \<and> k \<le> 4)"
proof -
  have m: "midpoint (0, 1) = 0.5" by (simp add: midpoint_def)
  have c: "calcBezier 0.5 0.5 0.5 - 0.5 = 0"
    by (simp add: calcBezier_def A_def B_def C_def)
  from loops_bounded[of "0.5" "0.3" "0.5" "0.5" 0 1]
  obtain n where n: "binarySubdivide 0.5 0 1 0.5 0.5 = midpoint ((bisectStep 0.5 0.5 0.5 ^^ n) (0, 1))"
    "\<forall>j<n. \<bar>calcBezier (midpoint ((bisectStep 0.5 0.5 0.5 ^^ j) (0, 1))) 0.5 0.5 - 0.5\<bar> > 0.0000001"
    and nw: "\<exists>t k. newtonRaphsonIterate_loop 0.5 0.3 0.5 0.5 0 = Some (t, k) \<and> k \<le> 4"
    by blast
  have "n = 0"
  proof (rule ccontr)
    assume "n \<noteq> 0"
    then have "\<bar>calcBezier (midpoint ((bisectStep 0.5 0.5 0.5 ^^ 0) (0, 1))) 0.5 0.5 - 0.5\<bar> > 0.0000001"
      using n(2) by blast
    then show False using m c by simp
  qed
  then show ?thesis using n(1) nw m by simp
qed

subsection \<open>C9: point symmetry\<close>











lemma search_quarter: "intervalSearch (sampleTable 0.25 0.75) 0.5 = (0.5, 5)"
  by (simp add: intervalSearch_def searchLoop.simps readSample_sampleTable
        calcBezier_def A_def B_def C_def kSplineTableSize_def kSampleStepSize_eq)

lemma newton_quarter: "newtonRaphsonIterate 0.5 0.5 0.25 0.75 = Some 0.5"
  by (simp add: newtonRaphsonIterate_def newtonRaphsonIterate_loop.simps NEWTON_ITERATIONS_def
        js_div_def getSlope_def calcBezier_def A_def B_def C_def)

lemma solve_quarter:
  "mX1 e = 0.25 \<Longrightarrow> mX2 e = 0.75 \<Longrightarrow> sampleValues e = sampleTable 0.25 0.75 \<Longrightarrow>
   getTForX e 0.5 = Some 0.5"
proof -
  assume m: "mX1 e = 0.25" "mX2 e = 0.75" and t: "sampleValues e = sampleTable 0.25 0.75"
  have g: "initialGuess e 0.5 = Some (0.5, 0.5)"
    using initialGuess_sampleTable[of "0.25" "0.75" e "0.5" "0.5" 5, OF _ _ _ _ t search_quarter]
    by (simp add: calcBezier_def A_def B_def C_def kSampleStepSize_eq)
  have s: "getSlope 0.5 0.25 0.75 \<ge> NEWTON_MIN_SLOPE"
    by (simp add: getSlope_def A_def B_def C_def NEWTON_MIN_SLOPE_def)
  show ?thesis
    using s by (simp add: getTForX_def g[simplified] m newton_quarter[simplified])
qed






text \<open>
  The formula read with the control points swapped only, \<open>(x2, y2, x1, y1)\<close>, is no
  symmetry of the curve: for \<open>(0.25, 0, 0.75, 0.5)\<close> both \<open>bezier(x1, y1, x2, y2)(0.5)\<close>
  and \<open>bezier(x2, y2, x1, y1)(1 - 0.5)\<close> are \<open>5/16\<close>, and \<open>5/16\<close> is not \<open>1 - 5/16\<close>.
\<close>

lemma search_quarter_swapped: "intervalSearch (sampleTable 0.75 0.25) 0.5 = (0.5, 5)"
  by (simp add: intervalSearch_def searchLoop.simps readSample_sampleTable
        calcBezier_def A_def B_def C_def kSplineTableSize_def kSampleStepSize_eq)

lemma newton_quarter_swapped: "newtonRaphsonIterate 0.5 0.5 0.75 0.25 = Some 0.5"
  by (simp add: newtonRaphsonIterate_def newtonRaphsonIterate_loop.simps NEWTON_ITERATIONS_def
        js_div_def getSlope_def calcBezier_def A_def B_def C_def)

lemma solve_quarter_swapped:
  "mX1 e = 0.75 \<Longrightarrow> mX2 e = 0.25 \<Longrightarrow> sampleValues e = sampleTable 0.75 0.25 \<Longrightarrow>
   getTForX e 0.5 = Some 0.5"
proof -
  assume m: "mX1 e = 0.75" "mX2 e = 0.25" and t: "sampleValues e = sampleTable 0.75 0.25"
  have g: "initialGuess e 0.5 = Some (0.5, 0.5)"
    using initialGuess_sampleTable[of "0.75" "0.25" e "0.5" "0.5" 5, OF _ _ _ _ t search_quarter_swapped]
    by (simp add: calcBezier_def A_def B_def C_def kSampleStepSize_eq)
  have s: "getSlope 0.5 0.75 0.25 \<ge> NEWTON_MIN_SLOPE"
    by (simp add: getSlope_def A_def B_def C_def NEWTON_MIN_SLOPE_def)
  show ?thesis
    using s by (simp add: getTForX_def g[simplified] m newton_quarter_swapped[simplified])
qed

lemma swapped_only_differs:
  "(case bezier True 0.25 0 0.75 0.5 of
      Inl err \<Rightarrow> False
    | Inr e \<Rightarrow>
       (case bezier True 0.75 0.5 0.25 0 of
          Inl err \<Rightarrow> False
        | Inr e' \<Rightarrow>
           BezierEasing e 0.5 = Some (5 / 16) \<and>
           BezierEasing e' (1 - 0.5) = Some (5 / 16) \<and>
           \<not> \<bar>5 / 16 - (1 - 5 / 16)\<bar> \<le> (0.000001::real)))"
proof -
  let ?e = "\<lparr>mX1 = 0.25, mY1 = 0, mX2 = 0.75, mY2 = 0.5, sampleValues = sampleTable 0.25 0.75\<rparr>"
  let ?e' = "\<lparr>mX1 = 0.75, mY1 = 0.5, mX2 = 0.25, mY2 = 0, sampleValues = sampleTable 0.75 0.25\<rparr>"
  have b: "bezier True 0.25 0 0.75 0.5 = Inr ?e"
    using bezier_Inr[of "0.25" "0.75" True 0 "0.5"] by simp
  have b': "bezier True 0.75 0.5 0.25 0 = Inr ?e'"
    using bezier_Inr[of "0.75" "0.25" True "0.5" 0] by simp
  have t: "getTForX ?e 0.5 = Some 0.5" by (rule solve_quarter) simp_all
  have t': "getTForX ?e' 0.5 = Some 0.5" by (rule solve_quarter_swapped) simp_all
  have y: "BezierEasing ?e 0.5 = Some (5 / 16)"
    by (simp add: BezierEasing_def t[simplified] calcBezier_def A_def B_def C_def)
  have y': "BezierEasing ?e' (1 - 0.5) = Some (5 / 16)"
    by (simp add: BezierEasing_def t'[simplified] calcBezier_def A_def B_def C_def)
  have far: "\<not> \<bar>5 / 16 - (1 - 5 / 16)\<bar> \<le> (0.000001::real)" by simp
  show ?thesis unfolding b b' sum.case using y y' far by blast
qed

subsection \<open>C10: the interval search stays inside the table\<close>

text \<open>
  C10. For every real input that reaches the solver of a curve that is not the identity
  line, the interval search ends (\<open>searchLoop\<close> is total) with an index
  \<open>0 \<le> currentSample \<le> 9\<close>, so the reads of \<open>sampleValues[currentSample]\<close> and
  \<open>sampleValues[currentSample + 1]\<close> are inside the table of 11 samples.
\<close>

theorem search_index_in_bounds:
  assumes "bezier f32 x1 y1 x2 y2 = Inr e" "x1 \<noteq> y1 \<or> x2 \<noteq> y2"
    and "intervalSearch (sampleValues e) aX = (intervalStart, currentSample)"
  shows "0 \<le> currentSample \<and> currentSample \<le> 9 \<and> length (sampleValues e) = 11 \<and>
         (\<exists>s0 s1. readSample (sampleValues e) currentSample = Some s0 \<and>
                   readSample (sampleValues e) (currentSample + 1) = Some s1)"
proof -
  from bezier_InrD[OF assms(1)] assms(2) have t: "sampleValues e = sampleTable x1 x2"
    by auto
  from intervalSearch_range[OF assms(3)] have c: "0 \<le> currentSample" "currentSample \<le> 9"
    by simp_all
  then show ?thesis
    by (simp add: t readSample_sampleTable) (simp add: sampleTable_def)
qed

theorem search_index_in_bounds_witness:
  "\<exists>e. bezier True 0.42 0 0.58 1 = Inr e \<and>
       intervalSearch (sampleValues e) 0.5 = (0.5, 5) \<and>
       length (sampleValues e) = 11 \<and>
       (\<exists>s0 s1. readSample (sampleValues e) 5 = Some s0 \<and>
                 readSample (sampleValues e) (5 + 1) = Some s1)"
proof -
  obtain e where e: "bezier True 0.42 0 0.58 1 = Inr e"
    using bezier_Inr[of "0.42" "0.58" True 0 1] by simp
  from bezier_InrD[OF e] have t: "sampleValues e = sampleTable 0.42 0.58" by simp
  have s: "intervalSearch (sampleValues e) 0.5 = (0.5, 5)"
    unfolding t
    by (simp add: intervalSearch_def searchLoop.simps readSample_sampleTable
          calcBezier_def A_def B_def C_def kSplineTableSize_def kSampleStepSize_eq)
  have n: "(0.42::real) \<noteq> 0 \<or> (0.58::real) \<noteq> 1" by simp
  from search_index_in_bounds[OF e n s] e s show ?thesis by blast
qed

end
